theory Spec2Isabelle
  imports Main
begin

section \<open>JavaScript values as the server sees them\<close>

text \<open>
  \<^verbatim>\<open>src/app.js\<close> holds two versions of the server. This theory is about the first (lines 1 to
  303), whose \<^verbatim>\<open>/stkpush\<close> route reads \<^verbatim>\<open>phoneNumber\<close> and \<^verbatim>\<open>amount\<close> and whose callback handler
  builds a transaction record. The server receives JSON bodies through \<^verbatim>\<open>express.json()\<close> and
  reads them with the ordinary JavaScript coercions, so a body is a JavaScript value. Strings
  are their UTF-8 bytes, which is what \<^verbatim>\<open>Buffer.from\<close> encodes. A finite number is the
  decimal value \<open>m * 10 ^ e\<close> that a JSON number or a numeric string denotes; rounding to
  binary64 is not part of the model.
\<close>

datatype jsnum = NaN | PosInf | NegInf | Fin int int

datatype jsval =
    JUndefined
  | JNull
  | JBool bool
  | JNum jsnum
  | JStr string
  | JArr "jsval list"
  | JObj "(string \<times> jsval) list"

datatype js_error = TypeError | Error string | AxiosError

abbreviation jint :: "int \<Rightarrow> jsval" where
  "jint n \<equiv> JNum (Fin n 0)"

subsection \<open>Decimal text\<close>

definition digit_char :: "nat \<Rightarrow> char" where
  "digit_char d = ''0123456789'' ! (d mod 10)"

fun digits :: "nat \<Rightarrow> string" where
  "digits n = (if n < 10 then [digit_char n] else digits (n div 10) @ [digit_char (n mod 10)])"

declare digits.simps [simp del]

definition is_digit :: "char \<Rightarrow> bool" where
  "is_digit c = (c \<in> set ''0123456789'')"

definition digit_val :: "char \<Rightarrow> nat" where
  "digit_val c = (of_char c - 48)"

definition nat_of_digits :: "string \<Rightarrow> nat" where
  "nat_of_digits ds = foldl (\<lambda>acc c. 10 * acc + digit_val c) 0 ds"

text \<open>
  \<^verbatim>\<open>Number::toString\<close> of ECMAScript for a positive finite number \<open>m * 10 ^ e\<close>: with \<open>s\<close> the
  digits of \<open>m\<close> without trailing zeros, \<open>k\<close> their count and \<open>n\<close> the position of the decimal
  point, the text is plain digits, a decimal fraction or the exponent form.
\<close>

definition pos_text :: "nat \<Rightarrow> int \<Rightarrow> string" where
  "pos_text m e =
     (let all_ds = digits m;
          zeros = length (takeWhile (\<lambda>c. c = CHR ''0'') (rev all_ds));
          ds = take (length all_ds - zeros) all_ds;
          k = int (length ds);
          n = int (length all_ds) + e
      in if k \<le> n \<and> n \<le> 21 then ds @ replicate (nat (n - k)) CHR ''0''
         else if 0 < n \<and> n \<le> 21 then take (nat n) ds @ ''.'' @ drop (nat n) ds
         else if -6 < n \<and> n \<le> 0 then ''0.'' @ replicate (nat (- n)) CHR ''0'' @ ds
         else (if k = 1 then ds else take 1 ds @ ''.'' @ drop 1 ds)
              @ ''e'' @ (if 0 \<le> n - 1 then ''+'' else ''-'') @ digits (nat \<bar>n - 1\<bar>))"

definition number_to_string :: "jsnum \<Rightarrow> string" where
  "number_to_string x =
     (case x of
        NaN \<Rightarrow> ''NaN''
      | PosInf \<Rightarrow> ''Infinity''
      | NegInf \<Rightarrow> ''-Infinity''
      | Fin m e \<Rightarrow>
          (if m = 0 then ''0''
           else if m < 0 then ''-'' @ pos_text (nat (- m)) e
           else pos_text (nat m) e))"

subsection \<open>Numeric strings\<close>

text \<open>
  \<^verbatim>\<open>StringToNumber\<close> of ECMAScript, which \<^verbatim>\<open>isNaN(amount)\<close> and \<^verbatim>\<open>amount <= 0\<close> apply to a string:
  white space is trimmed at both ends, the empty text is \<open>0\<close>, and the rest is a signed
  decimal literal, \<^verbatim>\<open>Infinity\<close>, or an unsigned binary, octal or hexadecimal literal;
  anything else is \<open>NaN\<close>. White space is listed by its UTF-8 bytes. The value is the exact
  decimal: a text such as \<^verbatim>\<open>1e-400\<close>, which the conversion of the code rounds to \<open>0\<close>, stays
  positive here, and digits beyond the precision of binary64 are kept. No statement below
  computes with such a value.
\<close>

definition white_space :: "string list" where
  "white_space =
     [[CHR 0x09], [CHR 0x0A], [CHR 0x0B], [CHR 0x0C], [CHR 0x0D], [CHR 0x20],
      [CHR 0xC2, CHR 0xA0], [CHR 0xE1, CHR 0x9A, CHR 0x80],
      [CHR 0xE2, CHR 0x80, CHR 0x80], [CHR 0xE2, CHR 0x80, CHR 0x81],
      [CHR 0xE2, CHR 0x80, CHR 0x82], [CHR 0xE2, CHR 0x80, CHR 0x83],
      [CHR 0xE2, CHR 0x80, CHR 0x84], [CHR 0xE2, CHR 0x80, CHR 0x85],
      [CHR 0xE2, CHR 0x80, CHR 0x86], [CHR 0xE2, CHR 0x80, CHR 0x87],
      [CHR 0xE2, CHR 0x80, CHR 0x88], [CHR 0xE2, CHR 0x80, CHR 0x89],
      [CHR 0xE2, CHR 0x80, CHR 0x8A], [CHR 0xE2, CHR 0x80, CHR 0xA8],
      [CHR 0xE2, CHR 0x80, CHR 0xA9], [CHR 0xE2, CHR 0x80, CHR 0xAF],
      [CHR 0xE2, CHR 0x81, CHR 0x9F], [CHR 0xE3, CHR 0x80, CHR 0x80],
      [CHR 0xEF, CHR 0xBB, CHR 0xBF]]"

definition ws_prefix_len :: "string \<Rightarrow> nat" where
  "ws_prefix_len s =
     (case filter (\<lambda>w. take (length w) s = w) white_space of [] \<Rightarrow> 0 | w # _ \<Rightarrow> length w)"

definition ws_suffix_len :: "string \<Rightarrow> nat" where
  "ws_suffix_len s =
     (case filter (\<lambda>w. drop (length s - length w) s = w) white_space of
        [] \<Rightarrow> 0 | w # _ \<Rightarrow> length w)"

function trim_start :: "string \<Rightarrow> string" where
  "trim_start s =
     (let k = ws_prefix_len s in if 0 < k \<and> k \<le> length s then trim_start (drop k s) else s)"
  by pat_completeness auto
termination
  by (relation "measure length") auto

function trim_end :: "string \<Rightarrow> string" where
  "trim_end s =
     (let k = ws_suffix_len s
      in if 0 < k \<and> k \<le> length s then trim_end (take (length s - k) s) else s)"
  by pat_completeness auto
termination
  by (relation "measure length") auto

declare trim_start.simps [simp del] trim_end.simps [simp del]

definition index_of :: "char \<Rightarrow> string \<Rightarrow> nat" where
  "index_of c cs = length (takeWhile (\<lambda>d. d \<noteq> c) cs)"

definition radix_digit :: "nat \<Rightarrow> char \<Rightarrow> bool" where
  "radix_digit r c =
     (index_of c ''0123456789abcdef'' < r \<or> index_of c ''0123456789ABCDEF'' < r)"

definition radix_val :: "char \<Rightarrow> nat" where
  "radix_val c = min (index_of c ''0123456789abcdef'') (index_of c ''0123456789ABCDEF'')"

definition radix_literal :: "nat \<Rightarrow> string \<Rightarrow> jsnum" where
  "radix_literal r ds =
     (if ds \<noteq> [] \<and> list_all (radix_digit r) ds
      then Fin (int (foldl (\<lambda>acc c. r * acc + radix_val c) 0 ds)) 0
      else NaN)"

definition split_sign :: "string \<Rightarrow> int \<times> string" where
  "split_sign s =
     (if take 1 s = ''+'' then (1, drop 1 s)
      else if take 1 s = ''-'' then (-1, drop 1 s)
      else (1, s))"

definition exponent_part :: "string \<Rightarrow> int option" where
  "exponent_part r =
     (if r = [] then Some 0
      else if take 1 r = ''e'' \<or> take 1 r = ''E''
      then (let (sg, ds) = split_sign (drop 1 r)
            in if ds \<noteq> [] \<and> list_all is_digit ds then Some (sg * int (nat_of_digits ds))
               else None)
      else None)"

definition decimal_literal :: "string \<Rightarrow> jsnum" where
  "decimal_literal s =
     (let (sg, body) = split_sign s
      in if body = ''Infinity'' then (if sg < 0 then NegInf else PosInf)
         else
           (let ip = takeWhile is_digit body;
                r1 = dropWhile is_digit body;
                fp = (if take 1 r1 = ''.'' then takeWhile is_digit (drop 1 r1) else []);
                r2 = (if take 1 r1 = ''.'' then dropWhile is_digit (drop 1 r1) else r1)
            in if ip = [] \<and> fp = [] then NaN
               else (case exponent_part r2 of
                       None \<Rightarrow> NaN
                     | Some ex \<Rightarrow> Fin (sg * int (nat_of_digits (ip @ fp))) (ex - int (length fp)))))"

definition StringToNumber :: "string \<Rightarrow> jsnum" where
  "StringToNumber s =
     (let t = trim_end (trim_start s)
      in if t = [] then Fin 0 0
         else if take 2 t = ''0x'' \<or> take 2 t = ''0X'' then radix_literal 16 (drop 2 t)
         else if take 2 t = ''0o'' \<or> take 2 t = ''0O'' then radix_literal 8 (drop 2 t)
         else if take 2 t = ''0b'' \<or> take 2 t = ''0B'' then radix_literal 2 (drop 2 t)
         else decimal_literal t)"

subsection \<open>Coercions and property reads\<close>

text \<open>
  \<^verbatim>\<open>!v\<close> is \<open>\<not> truthy v\<close>. \<open>ToString\<close> is the conversion that \<^verbatim>\<open>RegExp.prototype.test\<close> and a
  template literal apply. An array joins the texts of its elements with commas, \<^verbatim>\<open>null\<close>
  and \<^verbatim>\<open>undefined\<close> elements giving the empty text. A parsed JSON object inherits
  \<^verbatim>\<open>Object.prototype.toString\<close> and reads \<^verbatim>\<open>[object Object]\<close>, unless it has a member of its
  own named \<^verbatim>\<open>toString\<close>: a JSON value is never callable and the inherited \<^verbatim>\<open>valueOf\<close>
  returns the object itself, so the conversion throws a \<^verbatim>\<open>TypeError\<close>.
\<close>

definition truthy :: "jsval \<Rightarrow> bool" where
  "truthy v =
     (case v of
        JUndefined \<Rightarrow> False
      | JNull \<Rightarrow> False
      | JBool b \<Rightarrow> b
      | JNum x \<Rightarrow> (case x of NaN \<Rightarrow> False | Fin m e \<Rightarrow> m \<noteq> 0 | _ \<Rightarrow> True)
      | JStr s \<Rightarrow> s \<noteq> []
      | JArr xs \<Rightarrow> True
      | JObj ps \<Rightarrow> True)"

fun join_texts :: "(js_error + string) list \<Rightarrow> js_error + string" where
  "join_texts [] = Inr []"
| "join_texts [t] = t"
| "join_texts (t # ts) =
     (case t of
        Inl err \<Rightarrow> Inl err
      | Inr a \<Rightarrow> (case join_texts ts of Inl err \<Rightarrow> Inl err | Inr b \<Rightarrow> Inr (a @ '','' @ b)))"

fun ToString :: "jsval \<Rightarrow> js_error + string" where
  "ToString JUndefined = Inr ''undefined''"
| "ToString JNull = Inr ''null''"
| "ToString (JBool b) = Inr (if b then ''true'' else ''false'')"
| "ToString (JNum x) = Inr (number_to_string x)"
| "ToString (JStr s) = Inr s"
| "ToString (JArr xs) =
     join_texts
       (map (\<lambda>x. case x of JUndefined \<Rightarrow> Inr [] | JNull \<Rightarrow> Inr [] | _ \<Rightarrow> ToString x) xs)"
| "ToString (JObj ps) =
     (if ''toString'' \<in> set (map fst ps) then Inl TypeError else Inr ''[object Object]'')"

definition ToNumber :: "jsval \<Rightarrow> js_error + jsnum" where
  "ToNumber v =
     (case v of
        JUndefined \<Rightarrow> Inr NaN
      | JNull \<Rightarrow> Inr (Fin 0 0)
      | JBool b \<Rightarrow> Inr (Fin (if b then 1 else 0) 0)
      | JNum x \<Rightarrow> Inr x
      | JStr s \<Rightarrow> Inr (StringToNumber s)
      | _ \<Rightarrow> (case ToString v of Inl err \<Rightarrow> Inl err | Inr s \<Rightarrow> Inr (StringToNumber s)))"

definition isNaN :: "jsval \<Rightarrow> js_error + bool" where
  "isNaN v = (case ToNumber v of Inl err \<Rightarrow> Inl err | Inr x \<Rightarrow> Inr (x = NaN))"

text \<open>\<^verbatim>\<open>v <= 0\<close>: both sides become numbers, and a comparison with \<open>NaN\<close> is false.\<close>

definition le_zero :: "jsval \<Rightarrow> js_error + bool" where
  "le_zero v =
     (case ToNumber v of
        Inl err \<Rightarrow> Inl err
      | Inr x \<Rightarrow>
          Inr (case x of NaN \<Rightarrow> False | PosInf \<Rightarrow> False | NegInf \<Rightarrow> True | Fin m e \<Rightarrow> m \<le> 0))"

text \<open>
  Reading a member \<^verbatim>\<open>v.k\<close>. It throws on \<^verbatim>\<open>undefined\<close> and \<^verbatim>\<open>null\<close>; an object gives its
  member or \<^verbatim>\<open>undefined\<close>; any other value has none of the names this server reads
  (\<^verbatim>\<open>Body\<close>, \<^verbatim>\<open>stkCallback\<close>, \<^verbatim>\<open>Item\<close>, \<^verbatim>\<open>Name\<close>, \<^verbatim>\<open>phoneNumber\<close>, ...), none of which is
  inherited from a prototype.
\<close>

definition read_prop :: "jsval \<Rightarrow> string \<Rightarrow> jsval" where
  "read_prop v k =
     (case v of
        JObj ps \<Rightarrow> (case map_of ps k of None \<Rightarrow> JUndefined | Some x \<Rightarrow> x)
      | _ \<Rightarrow> JUndefined)"

definition get_prop :: "jsval \<Rightarrow> string \<Rightarrow> js_error + jsval" where
  "get_prop v k =
     (case v of
        JUndefined \<Rightarrow> Inl TypeError
      | JNull \<Rightarrow> Inl TypeError
      | _ \<Rightarrow> Inr (read_prop v k))"

text \<open>\<^verbatim>\<open>/^254\d{9}$/.test(v)\<close>: the text of \<open>v\<close> is \<^verbatim>\<open>254\<close> followed by exactly nine digits.\<close>

definition matches_254_d9 :: "string \<Rightarrow> bool" where
  "matches_254_d9 s = (length s = 12 \<and> take 3 s = ''254'' \<and> list_all is_digit (drop 3 s))"

definition regex_test :: "jsval \<Rightarrow> js_error + bool" where
  "regex_test v = (case ToString v of Inl err \<Rightarrow> Inl err | Inr s \<Rightarrow> Inr (matches_254_d9 s))"

text \<open>Sequencing of steps that may throw: the first error ends the computation.\<close>

definition and_then :: "'e + 'a \<Rightarrow> ('a \<Rightarrow> 'e + 'b) \<Rightarrow> 'e + 'b" where
  "and_then r f = (case r of Inl err \<Rightarrow> Inl err | Inr x \<Rightarrow> f x)"

subsection \<open>Base64 and the timestamp\<close>

text \<open>\<^verbatim>\<open>Buffer.from(s).toString("base64")\<close>: standard Base64 with padding over the bytes of \<open>s\<close>.\<close>

definition b64_char :: "nat \<Rightarrow> char" where
  "b64_char n = ''ABCDEFGHIJKLMNOPQRSTUVWXYZabcdefghijklmnopqrstuvwxyz0123456789+/'' ! n"

fun b64_bytes :: "nat list \<Rightarrow> string" where
  "b64_bytes [] = []"
| "b64_bytes [a] = [b64_char (a div 4), b64_char ((a mod 4) * 16), CHR ''='', CHR ''='']"
| "b64_bytes [a, b] =
     [b64_char (a div 4), b64_char ((a mod 4) * 16 + b div 16), b64_char ((b mod 16) * 4),
      CHR ''='']"
| "b64_bytes (a # b # c # r) =
     [b64_char (a div 4), b64_char ((a mod 4) * 16 + b div 16),
      b64_char ((b mod 16) * 4 + c div 64), b64_char (c mod 64)] @ b64_bytes r"

definition base64 :: "string \<Rightarrow> string" where
  "base64 s = b64_bytes (map of_char s)"

text \<open>
  The clock reading that \<^verbatim>\<open>moment()\<close> takes, and \<^verbatim>\<open>moment().format("YYYYMMDDHHmmss")\<close>: the
  fields in decimal, the year padded to four digits and the others to two (years up to 9999).
\<close>

record moment =
  YYYY :: nat
  MM :: nat
  DD :: nat
  HH :: nat
  mm :: nat
  ss :: nat

definition pad :: "nat \<Rightarrow> nat \<Rightarrow> string" where
  "pad w n = replicate (w - length (digits n)) CHR ''0'' @ digits n"

definition format_YYYYMMDDHHmmss :: "moment \<Rightarrow> string" where
  "format_YYYYMMDDHHmmss t =
     pad 4 (YYYY t) @ pad 2 (MM t) @ pad 2 (DD t) @ pad 2 (HH t) @ pad 2 (mm t) @ pad 2 (ss t)"

section \<open>The server state and its collaborators\<close>

text \<open>
  \<^verbatim>\<open>process.env\<close>: each variable is a string or is not set. The object \<^verbatim>\<open>baseTransaction\<close>
  that the callback handler builds is a record of JavaScript values.
\<close>

record env =
  CONSUMER_KEY :: "string option"
  CONSUMER_SECRET :: "string option"
  BUSINESSSHORTCODE :: "string option"
  PASSKEY :: "string option"
  CALLBACKURI :: "string option"

definition env_val :: "string option \<Rightarrow> jsval" where
  "env_val x = (case x of None \<Rightarrow> JUndefined | Some s \<Rightarrow> JStr s)"

record transaction =
  checkoutRequestID :: jsval
  merchantRequestID :: jsval
  resultCode :: jsval
  resultDesc :: jsval
  mpesaReceiptNumber :: jsval
  amount :: jsval
  transactionDate :: jsval
  phoneNumber :: jsval
  userId :: jsval

text \<open>
  A request that \<^verbatim>\<open>axios\<close> sends (its URL, the data object handed to \<^verbatim>\<open>axios.post\<close>, its
  headers), and how it ends: the promise rejects (no answer, a timeout, a status outside 2xx)
  or resolves with \<^verbatim>\<open>response.data\<close>. The gateway is any function of the request and of the
  number of requests made before it.
\<close>

datatype net_call =
    HttpGet string "(string \<times> string) list"
  | HttpPost string jsval "(string \<times> string) list"

datatype net_outcome = Rejected | Resolved jsval

type_synonym gateway = "nat \<Rightarrow> net_call \<Rightarrow> net_outcome"

text \<open>
  The state: the requests sent so far, the \<^verbatim>\<open>pendingTransactions\<close> map (line 134) as its
  entries in insertion order, and the documents created in the Appwrite database.
\<close>

record world =
  net_log :: "net_call list"
  pendingTransactions :: "(jsval \<times> jsval) list"
  documents :: "transaction list"

definition init_world :: world where
  "init_world = \<lparr>net_log = [], pendingTransactions = [], documents = []\<rparr>"

text \<open>
  \<^verbatim>\<open>Map.prototype.get\<close>: keys are compared by SameValueZero, so a freshly parsed array or
  object equals no stored key; a missing key reads \<^verbatim>\<open>undefined\<close>. (Numbers are compared as
  they are written, \<open>m\<close> and \<open>e\<close> alike; no handler below ever stores a key.)
\<close>

definition Map_get :: "(jsval \<times> jsval) list \<Rightarrow> jsval \<Rightarrow> jsval" where
  "Map_get m k =
     (case k of
        JArr xs \<Rightarrow> JUndefined
      | JObj ps \<Rightarrow> JUndefined
      | _ \<Rightarrow> (case map_of m k of None \<Rightarrow> JUndefined | Some v \<Rightarrow> v))"

definition Map_has :: "(jsval \<times> jsval) list \<Rightarrow> jsval \<Rightarrow> bool" where
  "Map_has m k =
     (case k of JArr xs \<Rightarrow> False | JObj ps \<Rightarrow> False | _ \<Rightarrow> map_of m k \<noteq> None)"

subsection \<open>Responses\<close>

datatype payload = Json jsval | Text string

datatype response = Response nat payload

definition res_json :: "nat \<Rightarrow> jsval \<Rightarrow> response" where
  "res_json code v = Response code (Json v)"

text \<open>\<^verbatim>\<open>res.sendStatus(code)\<close> sends the status with its reason phrase as the body.\<close>

definition res_sendStatus :: "nat \<Rightarrow> response" where
  "res_sendStatus code =
     Response code (Text (if code = 200 then ''OK''
                          else if code = 500 then ''Internal Server Error''
                          else digits code))"

definition status :: "response \<Rightarrow> nat" where
  "status r = (case r of Response code b \<Rightarrow> code)"

definition json_body :: "response \<Rightarrow> jsval" where
  "json_body r = (case r of Response code (Json v) \<Rightarrow> v | _ \<Rightarrow> JUndefined)"

text \<open>The error-handling middleware of line 288, which Express runs when a handler throws.\<close>

definition error_middleware :: response where
  "error_middleware = res_json 500 (JObj [(''error'', JStr ''Internal server error'')])"

section \<open>Access token\<close>

text \<open>
  \<^verbatim>\<open>getAccessToken\<close> (lines 27 to 50). It keeps nothing between calls: with both credentials set
  and not empty it sends one GET to the token endpoint, with Basic authentication, and returns
  \<^verbatim>\<open>response.data.access_token\<close>; whatever goes wrong inside the \<^verbatim>\<open>try\<close> is rethrown as
  \<^verbatim>\<open>Failed to get access token\<close>.
\<close>

definition token_url :: string where
  "token_url = ''https://sandbox.safaricom.co.ke/oauth/v1/generate?grant_type=client_credentials''"

text \<open>\<^verbatim>\<open>!x\<close> for a variable of the environment, and its text in a template literal.\<close>

definition unset :: "string option \<Rightarrow> bool" where
  "unset x = (case x of None \<Rightarrow> True | Some s \<Rightarrow> s = [])"

definition env_text :: "string option \<Rightarrow> string" where
  "env_text x = (case x of None \<Rightarrow> ''undefined'' | Some s \<Rightarrow> s)"

definition getAccessToken :: "env \<Rightarrow> gateway \<Rightarrow> world \<Rightarrow> (js_error + jsval) \<times> world" where
  "getAccessToken e gw w =
     (let consumer_key = CONSUMER_KEY e;
          consumer_secret = CONSUMER_SECRET e
      in if unset consumer_key \<or> unset consumer_secret
         then (Inl (Error ''Missing M-Pesa credentials in environment variables''), w)
         else
           (let auth = ''Basic '' @ base64 (env_text consumer_key @ '':'' @ env_text consumer_secret);
                call = HttpGet token_url [(''Authorization'', auth)];
                w1 = w\<lparr>net_log := net_log w @ [call]\<rparr>
            in case gw (length (net_log w)) call of
                 Rejected \<Rightarrow> (Inl (Error ''Failed to get access token''), w1)
               | Resolved data \<Rightarrow>
                   (case get_prop data ''access_token'' of
                      Inl err \<Rightarrow> (Inl (Error ''Failed to get access token''), w1)
                    | Inr token \<Rightarrow> (Inr token, w1))))"

text \<open>
  \<^verbatim>\<open>attachAccessToken\<close> (lines 53 to 61): the token goes to the next handler as
  \<^verbatim>\<open>req.accessToken\<close> (\<open>Inr\<close>), or the middleware answers 500 itself (\<open>Inl\<close>).
\<close>

definition attachAccessToken :: "env \<Rightarrow> gateway \<Rightarrow> world \<Rightarrow> (response + jsval) \<times> world" where
  "attachAccessToken e gw w =
     (case getAccessToken e gw w of
        (Inr accessToken, w1) \<Rightarrow> (Inr accessToken, w1)
      | (Inl err, w1) \<Rightarrow>
          (Inl (res_json 500 (JObj [(''error'', JStr ''Failed to authenticate with M-Pesa API'')])),
           w1))"

section \<open>Initiation\<close>

text \<open>
  \<^verbatim>\<open>validateStkPushRequest\<close> (lines 64 to 88): it calls \<^verbatim>\<open>next()\<close> or answers 400; a coercion
  that throws leaves the middleware with the error (\<open>Inl\<close>).
\<close>

datatype mw_result = Next | Respond response

definition validateStkPushRequest :: "jsval \<Rightarrow> js_error + mw_result" where
  "validateStkPushRequest body =
     and_then (get_prop body ''phoneNumber'') (\<lambda>phoneNumber.
     and_then (get_prop body ''amount'') (\<lambda>amount.
       if \<not> truthy phoneNumber \<or> \<not> truthy amount
       then Inr (Respond (res_json 400
              (JObj [(''error'', JStr ''Phone number and payable amount are required'')])))
       else
         and_then (regex_test phoneNumber) (\<lambda>matched.
           if \<not> matched
           then Inr (Respond (res_json 400
                  (JObj [(''error'', JStr ''Invalid phone number format. Use 254XXXXXXXXX'')])))
           else
             and_then (isNaN amount) (\<lambda>nan.
             and_then (if nan then Inr True else le_zero amount) (\<lambda>bad.
               if bad
               then Inr (Respond (res_json 400
                      (JObj [(''error'', JStr ''Invalid amount. Must be a positive number'')])))
               else Inr Next)))))"

text \<open>
  \<^verbatim>\<open>businessShortCode + passkey + timestamp\<close> as JavaScript adds a string to values that are
  strings or \<^verbatim>\<open>undefined\<close>: \<^verbatim>\<open>undefined + undefined\<close> is \<open>NaN\<close>, and a string operand turns the
  other one into its text.
\<close>

definition plus3 :: "string option \<Rightarrow> string option \<Rightarrow> string \<Rightarrow> string" where
  "plus3 businessShortCode passkey timestamp =
     (case businessShortCode of
        None \<Rightarrow> (case passkey of
                   None \<Rightarrow> ''NaN'' @ timestamp
                 | Some pk \<Rightarrow> ''undefined'' @ pk @ timestamp)
      | Some sc \<Rightarrow> (case passkey of
                     None \<Rightarrow> sc @ ''undefined'' @ timestamp
                   | Some pk \<Rightarrow> sc @ pk @ timestamp))"

definition stkPushUrl :: string where
  "stkPushUrl = ''https://sandbox.safaricom.co.ke/mpesa/stkpush/v1/processrequest''"

definition requestData :: "env \<Rightarrow> string \<Rightarrow> jsval \<Rightarrow> jsval" where
  "requestData e timestamp body =
     (let businessShortCode = BUSINESSSHORTCODE e;
          passkey = PASSKEY e;
          password = base64 (plus3 businessShortCode passkey timestamp)
      in JObj
           [(''BusinessShortCode'', env_val businessShortCode),
            (''Password'', JStr password),
            (''Timestamp'', JStr timestamp),
            (''TransactionType'', JStr ''CustomerPayBillOnline''),
            (''Amount'', read_prop body ''amount''),
            (''PartyA'', read_prop body ''phoneNumber''),
            (''PartyB'', env_val businessShortCode),
            (''PhoneNumber'', read_prop body ''phoneNumber''),
            (''CallBackURL'', env_val (CALLBACKURI e)),
            (''AccountReference'', read_prop body ''accountReference''),
            (''TransactionDesc'', read_prop body ''transactionDesc'')])"

text \<open>
  The \<^verbatim>\<open>try\<close> block of the \<^verbatim>\<open>/stkpush\<close> handler (lines 142 to 188). The body was destructured
  by the validator before, so reading its members does not throw here. The branch on
  \<^verbatim>\<open>response.data.CheckoutRequestID\<close> has no statement left in it (lines 174 to 182): the state
  is the same on both sides.
\<close>

definition stkpush_try ::
  "env \<Rightarrow> gateway \<Rightarrow> moment \<Rightarrow> jsval \<Rightarrow> jsval \<Rightarrow> world \<Rightarrow> (js_error + response) \<times> world" where
  "stkpush_try e gw now body accessToken w =
     (let timestamp = format_YYYYMMDDHHmmss now;
          data = requestData e timestamp body
      in case ToString accessToken of
           Inl err \<Rightarrow> (Inl err, w)
         | Inr bearer \<Rightarrow>
             (let call = HttpPost stkPushUrl data
                           [(''Authorization'', ''Bearer '' @ bearer),
                            (''Content-Type'', ''application/json'')];
                  w1 = w\<lparr>net_log := net_log w @ [call]\<rparr>
              in case gw (length (net_log w)) call of
                   Rejected \<Rightarrow> (Inl AxiosError, w1)
                 | Resolved response_data \<Rightarrow>
                     (case get_prop response_data ''CheckoutRequestID'' of
                        Inl err \<Rightarrow> (Inl err, w1)
                      | Inr cid \<Rightarrow>
                          (let w2 = (if truthy cid then w1 else w1)
                           in (Inr (res_json 200
                                 (JObj [(''success'', JBool True),
                                        (''message'',
                                         JStr ''STK push sent successfully. Please check your phone.''),
                                        (''data'', response_data)])),
                               w2)))))"

definition stkpush_handler ::
  "env \<Rightarrow> gateway \<Rightarrow> moment \<Rightarrow> jsval \<Rightarrow> jsval \<Rightarrow> world \<Rightarrow> response \<times> world" where
  "stkpush_handler e gw now body accessToken w =
     (case stkpush_try e gw now body accessToken w of
        (Inr r, w1) \<Rightarrow> (r, w1)
      | (Inl err, w1) \<Rightarrow>
          (res_json 500
             (JObj [(''success'', JBool False),
                    (''error'', JStr ''Failed to process STK push request'')]),
           w1))"

text \<open>
  \<^verbatim>\<open>app.post("/stkpush", validateStkPushRequest, attachAccessToken, handler)\<close> (line 136): the
  handlers run in this order, each only when the one before called \<^verbatim>\<open>next()\<close>.
\<close>

definition stkpush_route ::
  "env \<Rightarrow> gateway \<Rightarrow> moment \<Rightarrow> jsval \<Rightarrow> world \<Rightarrow> response \<times> world" where
  "stkpush_route e gw now body w =
     (case validateStkPushRequest body of
        Inl err \<Rightarrow> (error_middleware, w)
      | Inr (Respond r) \<Rightarrow> (r, w)
      | Inr Next \<Rightarrow>
          (case attachAccessToken e gw w of
             (Inl r, w1) \<Rightarrow> (r, w1)
           | (Inr accessToken, w1) \<Rightarrow> stkpush_handler e gw now body accessToken w1))"

section \<open>Callback\<close>

text \<open>
  The \<^verbatim>\<open>forEach\<close> of lines 224 to 229 over the items of \<^verbatim>\<open>CallbackMetadata.Item\<close>: reading
  \<^verbatim>\<open>item.Name\<close> throws on a \<^verbatim>\<open>null\<close> item; \<^verbatim>\<open>===\<close> holds for the very string only.
\<close>

definition metadata_item :: "transaction \<Rightarrow> jsval \<Rightarrow> js_error + transaction" where
  "metadata_item baseTransaction item =
     and_then (get_prop item ''Name'') (\<lambda>name.
       let t1 = (if name = JStr ''Amount''
                 then baseTransaction\<lparr>amount := read_prop item ''Value''\<rparr> else baseTransaction);
           t2 = (if name = JStr ''MpesaReceiptNumber''
                 then t1\<lparr>mpesaReceiptNumber := read_prop item ''Value''\<rparr> else t1);
           t3 = (if name = JStr ''TransactionDate''
                 then t2\<lparr>transactionDate := read_prop item ''Value''\<rparr> else t2);
           t4 = (if name = JStr ''PhoneNumber''
                 then t3\<lparr>phoneNumber := read_prop item ''Value''\<rparr> else t3)
       in Inr t4)"

fun forEach :: "jsval list \<Rightarrow> transaction \<Rightarrow> js_error + transaction" where
  "forEach [] baseTransaction = Inr baseTransaction"
| "forEach (item # items) baseTransaction =
     and_then (metadata_item baseTransaction item) (forEach items)"

text \<open>
  The \<^verbatim>\<open>try\<close> block of the \<^verbatim>\<open>/stk_callback\<close> handler up to the answer (lines 202 to 230), with
  the values of its local variables \<^verbatim>\<open>baseTransaction\<close> and \<^verbatim>\<open>storedData\<close> at the end. Only an
  array has a \<^verbatim>\<open>forEach\<close> that can be called. No statement between lines 232 and 247 is left
  to run: nothing is written to the database and nothing is deleted from the map.
\<close>

definition stk_callback_try :: "jsval \<Rightarrow> world \<Rightarrow> js_error + (transaction \<times> jsval \<times> world)" where
  "stk_callback_try body w =
     and_then (get_prop body ''Body'') (\<lambda>Body.
     and_then (get_prop Body ''stkCallback'') (\<lambda>callbackData.
     and_then (get_prop callbackData ''CheckoutRequestID'') (\<lambda>checkoutRequestID'.
       let storedData = Map_get (pendingTransactions w) checkoutRequestID';
           baseTransaction =
             \<lparr>checkoutRequestID = checkoutRequestID',
              merchantRequestID = read_prop callbackData ''MerchantRequestID'',
              resultCode = read_prop callbackData ''ResultCode'',
              resultDesc = read_prop callbackData ''ResultDesc'',
              mpesaReceiptNumber = JNull,
              amount = jint 1,
              transactionDate = JNull,
              phoneNumber = JNull,
              userId = JStr ''686c2e0f0027634a8e93''\<rparr>;
           CallbackMetadata = read_prop callbackData ''CallbackMetadata''
       in and_then
            (if truthy CallbackMetadata
             then and_then (get_prop CallbackMetadata ''Item'') (\<lambda>Item.
                    case Item of
                      JArr items \<Rightarrow> forEach items baseTransaction
                    | _ \<Rightarrow> Inl TypeError)
             else Inr baseTransaction)
            (\<lambda>final. Inr (final, storedData, w)))))"

definition stk_callback :: "jsval \<Rightarrow> world \<Rightarrow> response \<times> world" where
  "stk_callback body w =
     (case stk_callback_try body w of
        Inr (baseTransaction, storedData, w1) \<Rightarrow> (res_sendStatus 200, w1)
      | Inl err \<Rightarrow> (res_sendStatus 500, w))"

section \<open>Sequences of requests\<close>

datatype request = StkPush moment jsval | StkCallback jsval

definition handle :: "env \<Rightarrow> gateway \<Rightarrow> request \<Rightarrow> world \<Rightarrow> response \<times> world" where
  "handle e gw rq w =
     (case rq of
        StkPush now body \<Rightarrow> stkpush_route e gw now body w
      | StkCallback body \<Rightarrow> stk_callback body w)"

fun serve :: "env \<Rightarrow> gateway \<Rightarrow> request list \<Rightarrow> world \<Rightarrow> world" where
  "serve e gw [] w = w"
| "serve e gw (rq # rqs) w = serve e gw rqs (snd (handle e gw rq w))"

section \<open>Inputs used below\<close>

text \<open>
  A configured environment, a gateway that accepts everything (a token for the GET, a
  \<^verbatim>\<open>CheckoutRequestID\<close> for the POST), a clock reading, the initiation of phone
  \<^verbatim>\<open>254712345678\<close> and amount \<^verbatim>\<open>100\<close>, and two callbacks: a payment that succeeded, with its four
  metadata items, and one that the user cancelled, with no metadata.
\<close>

definition sample_env :: env where
  "sample_env =
     \<lparr>CONSUMER_KEY = Some ''key'', CONSUMER_SECRET = Some ''secret'',
      BUSINESSSHORTCODE = Some ''174379'', PASSKEY = Some ''pk'',
      CALLBACKURI = Some ''https://example.org/stk_callback''\<rparr>"

definition no_key_env :: env where
  "no_key_env = sample_env\<lparr>CONSUMER_KEY := None\<rparr>"

definition sample_gateway :: gateway where
  "sample_gateway n call =
     (case call of
        HttpGet url headers \<Rightarrow>
          Resolved (JObj [(''access_token'', JStr ''tok''), (''expires_in'', JStr ''3599'')])
      | HttpPost url data headers \<Rightarrow>
          Resolved (JObj [(''MerchantRequestID'', JStr ''29115-1''),
                          (''CheckoutRequestID'', JStr ''ws_CO_1''),
                          (''ResponseCode'', JStr ''0'')]))"

definition failing_gateway :: gateway where
  "failing_gateway n call =
     (case call of
        HttpGet url headers \<Rightarrow> Resolved (JObj [(''access_token'', JStr ''tok'')])
      | HttpPost url data headers \<Rightarrow> Rejected)"

definition sample_now :: moment where
  "sample_now = \<lparr>YYYY = 2024, MM = 1, DD = 1, HH = 12, mm = 0, ss = 0\<rparr>"

definition sample_body :: jsval where
  "sample_body = JObj [(''phoneNumber'', JStr ''254712345678''), (''amount'', jint 100)]"

definition local_phone_body :: jsval where
  "local_phone_body = JObj [(''phoneNumber'', JStr ''0712345678''), (''amount'', jint 100)]"

definition unconvertible_phone_body :: jsval where
  "unconvertible_phone_body =
     JObj [(''phoneNumber'', JObj [(''toString'', jint 1)]), (''amount'', jint 100)]"

definition sample_items :: "jsval list" where
  "sample_items =
     [JObj [(''Name'', JStr ''Amount''), (''Value'', jint 500)],
      JObj [(''Name'', JStr ''MpesaReceiptNumber''), (''Value'', JStr ''ABC123'')],
      JObj [(''Name'', JStr ''TransactionDate''), (''Value'', jint 20240101120000)],
      JObj [(''Name'', JStr ''PhoneNumber''), (''Value'', jint 254712345678)]]"

definition success_callback :: jsval where
  "success_callback =
     JObj [(''Body'', JObj [(''stkCallback'',
       JObj [(''MerchantRequestID'', JStr ''29115-1''),
             (''CheckoutRequestID'', JStr ''ws_CO_1''),
             (''ResultCode'', jint 0),
             (''ResultDesc'', JStr ''The service request is processed successfully.''),
             (''CallbackMetadata'', JObj [(''Item'', JArr sample_items)])])])]"

definition cancelled_callback :: jsval where
  "cancelled_callback =
     JObj [(''Body'', JObj [(''stkCallback'',
       JObj [(''MerchantRequestID'', JStr ''29115-1''),
             (''CheckoutRequestID'', JStr ''ws_CO_1''),
             (''ResultCode'', jint 1032),
             (''ResultDesc'', JStr ''Request cancelled by user'')])])]"

text \<open>The request that the \<^verbatim>\<open>/stkpush\<close> handler sends at line 167, for a token of text \<open>bearer\<close>.\<close>

definition stkpush_request :: "env \<Rightarrow> moment \<Rightarrow> jsval \<Rightarrow> string \<Rightarrow> net_call" where
  "stkpush_request e now body bearer =
     HttpPost stkPushUrl (requestData e (format_YYYYMMDDHHmmss now) body)
       [(''Authorization'', ''Bearer '' @ bearer), (''Content-Type'', ''application/json'')]"

text \<open>
  The callback bodies that the handler reads to the end without a \<^verbatim>\<open>TypeError\<close>: \<^verbatim>\<open>Body\<close> and
  \<^verbatim>\<open>Body.stkCallback\<close> are there, and \<^verbatim>\<open>CallbackMetadata\<close>, when it is truthy, has an array
  \<^verbatim>\<open>Item\<close> with no \<^verbatim>\<open>null\<close> in it.
\<close>

definition non_null :: "jsval \<Rightarrow> bool" where
  "non_null v = (v \<noteq> JUndefined \<and> v \<noteq> JNull)"

definition callback_readable :: "jsval \<Rightarrow> bool" where
  "callback_readable body =
     (let callbackData = read_prop (read_prop body ''Body'') ''stkCallback'';
          CallbackMetadata = read_prop callbackData ''CallbackMetadata''
      in non_null body \<and> non_null (read_prop body ''Body'') \<and> non_null callbackData \<and>
         (if truthy CallbackMetadata
          then (case read_prop CallbackMetadata ''Item'' of
                  JArr items \<Rightarrow> list_all non_null items
                | _ \<Rightarrow> False)
          else True))"

section \<open>Basic facts\<close>

subsection \<open>Steps that may throw\<close>

lemma get_prop_Inr: "get_prop v k = Inr x \<longleftrightarrow> non_null v \<and> x = read_prop v k"
  by (cases v) (auto simp: get_prop_def non_null_def)

lemma and_then_Inr: "and_then r f = Inr y \<longleftrightarrow> (\<exists>x. r = Inr x \<and> f x = Inr y)"
  by (cases r) (auto simp: and_then_def)

lemma truthy_non_null: "truthy v \<Longrightarrow> non_null v"
  by (cases v) (simp_all add: truthy_def non_null_def)

lemma status_res_json: "status (res_json code v) = code"
  by (simp add: status_def res_json_def)

lemma Map_get_empty: "Map_get [] c = JUndefined"
  by (cases c) (simp_all add: Map_get_def)

subsection \<open>The timestamp is fourteen digits\<close>

lemma digit_char_is_digit: "is_digit (digit_char d)"
proof -
  have "d mod 10 < length ''0123456789''" by simp
  then have "''0123456789'' ! (d mod 10) \<in> set ''0123456789''"
    by (rule nth_mem)
  then show ?thesis
    by (simp only: is_digit_def digit_char_def)
qed

lemma digits_all_digit: "list_all is_digit (digits n)"
proof (induction n rule: digits.induct)
  case (1 n)
  show ?case
  proof (cases "n < 10")
    case True
    then show ?thesis
      by (subst digits.simps) (simp add: digit_char_is_digit)
  next
    case False
    then show ?thesis
      using 1 by (subst digits.simps) (simp add: digit_char_is_digit)
  qed
qed

lemma digits_length: "n < 10 ^ k \<Longrightarrow> 0 < k \<Longrightarrow> length (digits n) \<le> k"
proof (induction k arbitrary: n)
  case 0
  then show ?case by simp
next
  case (Suc k)
  show ?case
  proof (cases "n < 10")
    case True
    then show ?thesis
      by (subst digits.simps) simp
  next
    case False
    with Suc.prems have k: "0 < k"
      by (cases k) simp_all
    from Suc.prems have "n div 10 < 10 ^ k"
      by (simp add: less_mult_imp_div_less mult.commute)
    then have "length (digits (n div 10)) \<le> k"
      using Suc.IH k by blast
    with False show ?thesis
      by (subst digits.simps) simp
  qed
qed

lemma pad_shape:
  assumes "n < 10 ^ w" and "0 < w"
  shows "length (pad w n) = w \<and> list_all is_digit (pad w n)"
proof -
  have "length (digits n) \<le> w"
    using assms by (rule digits_length)
  moreover have "is_digit CHR ''0''"
    by (simp add: is_digit_def)
  then have "list_all is_digit (replicate k CHR ''0'')" for k
    by (induction k) simp_all
  ultimately show ?thesis
    by (simp add: pad_def digits_all_digit)
qed

lemma timestamp_shape:
  assumes "YYYY now < 10000" "MM now < 100" "DD now < 100" "HH now < 100" "mm now < 100"
    "ss now < 100"
  shows "length (format_YYYYMMDDHHmmss now) = 14 \<and> list_all is_digit (format_YYYYMMDDHHmmss now)"
  using pad_shape [of "YYYY now" 4] pad_shape [of "MM now" 2] pad_shape [of "DD now" 2]
    pad_shape [of "HH now" 2] pad_shape [of "mm now" 2] pad_shape [of "ss now" 2] assms
  by (simp add: format_YYYYMMDDHHmmss_def)

subsection \<open>What the handlers leave alone\<close>

lemma getAccessToken_rest:
  "getAccessToken e gw w = (r, w1) \<Longrightarrow>
     pendingTransactions w1 = pendingTransactions w \<and> documents w1 = documents w"
  by (auto simp: getAccessToken_def Let_def split: if_splits net_outcome.splits sum.splits)

lemma stkpush_try_rest:
  "stkpush_try e gw now body tok w = (r, w1) \<Longrightarrow>
     pendingTransactions w1 = pendingTransactions w \<and> documents w1 = documents w"
  by (auto simp: stkpush_try_def Let_def split: if_splits net_outcome.splits sum.splits)

lemma stkpush_route_rest:
  "stkpush_route e gw now body w = (r, w1) \<Longrightarrow>
     pendingTransactions w1 = pendingTransactions w \<and> documents w1 = documents w"
  by (auto simp: stkpush_route_def attachAccessToken_def stkpush_handler_def
      split: sum.splits mw_result.splits prod.splits
      dest!: getAccessToken_rest stkpush_try_rest)

lemma stk_callback_try_world:
  "stk_callback_try body w = Inr (t, stored, w1) \<Longrightarrow> w1 = w"
  by (auto simp: stk_callback_try_def and_then_Inr Let_def)

lemma stk_callback_world: "snd (stk_callback body w) = w"
  by (auto simp: stk_callback_def split: sum.splits dest: stk_callback_try_world)

lemma handle_rest:
  "pendingTransactions (snd (handle e gw rq w)) = pendingTransactions w \<and>
   documents (snd (handle e gw rq w)) = documents w"
proof (cases rq)
  case (StkPush now body)
  then show ?thesis
    using stkpush_route_rest [of e gw now body w]
    by (cases "stkpush_route e gw now body w") (simp add: handle_def)
next
  case (StkCallback body)
  then show ?thesis
    by (simp add: handle_def stk_callback_world)
qed

lemma serve_rest:
  "pendingTransactions (serve e gw rqs w) = pendingTransactions w \<and>
   documents (serve e gw rqs w) = documents w"
  by (induction rqs arbitrary: w) (simp_all add: handle_rest)

subsection \<open>When the token request throws\<close>

lemma getAccessToken_throws:
  "(\<exists>err. fst (getAccessToken e gw w) = Inl err) \<longleftrightarrow>
     unset (CONSUMER_KEY e) \<or> unset (CONSUMER_SECRET e) \<or>
     (case gw (length (net_log w))
             (HttpGet token_url
                [(''Authorization'',
                  ''Basic '' @ base64 (env_text (CONSUMER_KEY e) @ '':'' @
                                       env_text (CONSUMER_SECRET e)))]) of
        Rejected \<Rightarrow> True
      | Resolved data \<Rightarrow> data = JUndefined \<or> data = JNull)"
  by (auto simp: getAccessToken_def get_prop_def Let_def
      split: net_outcome.splits sum.splits jsval.splits)

lemma getAccessToken_no_member:
  "\<not> unset (CONSUMER_KEY e) \<Longrightarrow> \<not> unset (CONSUMER_SECRET e) \<Longrightarrow>
   gw (length (net_log w))
      (HttpGet token_url
         [(''Authorization'',
           ''Basic '' @ base64 (env_text (CONSUMER_KEY e) @ '':'' @
                                env_text (CONSUMER_SECRET e)))]) = Resolved (JObj []) \<Longrightarrow>
     fst (getAccessToken e gw w) = Inr JUndefined"
  by (simp add: getAccessToken_def get_prop_def read_prop_def Let_def)

subsection \<open>The validator\<close>

lemma validate_Respond:
  "validateStkPushRequest body = Inr (Respond r) \<Longrightarrow>
     \<exists>msg. r = res_json 400 (JObj [(''error'', JStr msg)])"
  by (auto simp: validateStkPushRequest_def and_then_Inr split: if_splits)

lemma validate_Next:
  "validateStkPushRequest body = Inr Next \<longleftrightarrow>
     non_null body \<and> truthy (read_prop body ''phoneNumber'') \<and> truthy (read_prop body ''amount'') \<and>
     regex_test (read_prop body ''phoneNumber'') = Inr True \<and>
     isNaN (read_prop body ''amount'') = Inr False \<and>
     le_zero (read_prop body ''amount'') = Inr False"
  by (auto simp: validateStkPushRequest_def and_then_Inr get_prop_Inr split: if_splits)

subsection \<open>The initiation handler\<close>

lemma requestData_members:
  "read_prop (requestData e timestamp body) ''Timestamp'' = JStr timestamp \<and>
   read_prop (requestData e timestamp body) ''Password'' =
     JStr (base64 (plus3 (BUSINESSSHORTCODE e) (PASSKEY e) timestamp))"
  by (simp add: requestData_def read_prop_def Let_def)

lemma stkpush_try_log:
  "ToString accessToken = Inr bearer \<Longrightarrow>
     net_log (snd (stkpush_try e gw now body accessToken w)) =
       net_log w @ [stkpush_request e now body bearer]"
  by (simp add: stkpush_try_def stkpush_request_def Let_def split: net_outcome.splits sum.splits)

lemma stkpush_try_Rejected:
  "ToString accessToken = Inr bearer \<Longrightarrow>
   gw (length (net_log w)) (stkpush_request e now body bearer) = Rejected \<Longrightarrow>
     fst (stkpush_try e gw now body accessToken w) = Inl AxiosError"
  by (simp add: stkpush_try_def stkpush_request_def Let_def)

lemma stkpush_try_Resolved:
  "ToString accessToken = Inr bearer \<Longrightarrow>
   gw (length (net_log w)) (stkpush_request e now body bearer) = Resolved data \<Longrightarrow>
   non_null data \<Longrightarrow>
     fst (stkpush_try e gw now body accessToken w) =
       Inr (res_json 200
         (JObj [(''success'', JBool True),
                (''message'', JStr ''STK push sent successfully. Please check your phone.''),
                (''data'', data)]))"
  by (simp add: stkpush_try_def stkpush_request_def get_prop_Inr [THEN iffD2] Let_def)

lemma stkpush_handler_fst:
  "fst (stkpush_handler e gw now body accessToken w) =
     (case fst (stkpush_try e gw now body accessToken w) of
        Inr r \<Rightarrow> r
      | Inl err \<Rightarrow>
          res_json 500
            (JObj [(''success'', JBool False),
                   (''error'', JStr ''Failed to process STK push request'')]))"
  by (simp add: stkpush_handler_def split: prod.splits sum.splits)

lemma stkpush_handler_log:
  "net_log (snd (stkpush_handler e gw now body accessToken w)) =
     net_log (snd (stkpush_try e gw now body accessToken w))"
  by (simp add: stkpush_handler_def split: prod.splits sum.splits)

lemma stkpush_route_valid:
  "validateStkPushRequest body = Inr Next \<Longrightarrow>
   getAccessToken e gw w = (Inr accessToken, w1) \<Longrightarrow>
     stkpush_route e gw now body w = stkpush_handler e gw now body accessToken w1"
  by (simp add: stkpush_route_def attachAccessToken_def)

subsection \<open>The callback handler\<close>

lemma metadata_item_Inr: "(\<exists>t'. metadata_item t item = Inr t') \<longleftrightarrow> non_null item"
  by (auto simp: metadata_item_def and_then_Inr get_prop_Inr Let_def)

lemma metadata_item_Inl: "\<not> non_null item \<Longrightarrow> metadata_item t item = Inl TypeError"
  by (cases item) (auto simp: metadata_item_def and_then_def get_prop_def non_null_def)

lemma forEach_Inr: "(\<exists>t'. forEach items t = Inr t') \<longleftrightarrow> list_all non_null items"
proof (induction items arbitrary: t)
  case Nil
  show ?case by simp
next
  case (Cons item items)
  show ?case
  proof (cases "non_null item")
    case True
    then obtain t1 where "metadata_item t item = Inr t1"
      using metadata_item_Inr [of t item] by blast
    then show ?thesis
      using True Cons.IH [of t1] by (simp add: and_then_def)
  next
    case False
    then have "metadata_item t item = Inl TypeError"
      by (rule metadata_item_Inl)
    then show ?thesis
      using False by (simp add: and_then_def)
  qed
qed

lemma metadata_item_userId: "metadata_item t item = Inr t' \<Longrightarrow> userId t' = userId t"
  by (auto simp: metadata_item_def and_then_Inr Let_def)

lemma forEach_userId: "forEach items t = Inr t' \<Longrightarrow> userId t' = userId t"
proof (induction items arbitrary: t)
  case Nil
  then show ?case by simp
next
  case (Cons item items)
  then obtain t1 where "metadata_item t item = Inr t1" and "forEach items t1 = Inr t'"
    by (auto simp: and_then_Inr)
  then show ?case
    using Cons.IH [of t1] metadata_item_userId [of t item t1] by simp
qed

lemma Item_case_Inr:
  "(case Item of JArr items \<Rightarrow> forEach items base | _ \<Rightarrow> Inl TypeError) = Inr t \<Longrightarrow>
     \<exists>items. Item = JArr items \<and> forEach items base = Inr t"
  by (cases Item) auto

lemma Item_case_Inr_iff:
  "(\<exists>t. (case Item of JArr items \<Rightarrow> forEach items base | _ \<Rightarrow> Inl TypeError) = Inr t) \<longleftrightarrow>
     (case Item of JArr items \<Rightarrow> list_all non_null items | _ \<Rightarrow> False)"
  by (cases Item) (simp_all add: forEach_Inr)

lemma stk_callback_try_readable:
  "(\<exists>res. stk_callback_try body w = Inr res) \<longleftrightarrow> callback_readable body"
  unfolding stk_callback_try_def callback_readable_def
  by (auto simp: and_then_Inr get_prop_Inr Let_def Item_case_Inr_iff truthy_non_null)

lemma stk_callback_try_stored:
  "stk_callback_try body w = Inr (t, stored, w1) \<Longrightarrow>
     stored = Map_get (pendingTransactions w)
       (read_prop (read_prop (read_prop body ''Body'') ''stkCallback'') ''CheckoutRequestID'')"
  by (auto simp: stk_callback_try_def and_then_Inr get_prop_Inr Let_def)

lemma stk_callback_try_no_metadata:
  assumes "stk_callback_try body w = Inr (t, stored, w1)"
    and "\<not> truthy (read_prop (read_prop (read_prop body ''Body'') ''stkCallback'')
           ''CallbackMetadata'')"
  shows "t = \<lparr>checkoutRequestID =
                read_prop (read_prop (read_prop body ''Body'') ''stkCallback'') ''CheckoutRequestID'',
              merchantRequestID =
                read_prop (read_prop (read_prop body ''Body'') ''stkCallback'') ''MerchantRequestID'',
              resultCode =
                read_prop (read_prop (read_prop body ''Body'') ''stkCallback'') ''ResultCode'',
              resultDesc =
                read_prop (read_prop (read_prop body ''Body'') ''stkCallback'') ''ResultDesc'',
              mpesaReceiptNumber = JNull, amount = jint 1, transactionDate = JNull,
              phoneNumber = JNull, userId = JStr ''686c2e0f0027634a8e93''\<rparr>"
  using assms
  by (auto simp: stk_callback_try_def and_then_Inr get_prop_Inr Let_def)

subsection \<open>The handlers on the inputs of the examples\<close>

lemmas coercion_defs =
  and_then_def get_prop_def read_prop_def truthy_def regex_test_def matches_254_d9_def
  is_digit_def isNaN_def le_zero_def ToNumber_def number_to_string_def pos_text_def
  digits.simps digit_char_def Let_def

lemma validate_sample_body: "validateStkPushRequest sample_body = Inr Next"
  by (simp add: validateStkPushRequest_def sample_body_def coercion_defs)

lemma validate_local_phone_body:
  "validateStkPushRequest local_phone_body =
     Inr (Respond (res_json 400
       (JObj [(''error'', JStr ''Invalid phone number format. Use 254XXXXXXXXX'')])))"
  by (simp add: validateStkPushRequest_def local_phone_body_def coercion_defs)

lemma validate_unconvertible_phone_body:
  "validateStkPushRequest unconvertible_phone_body = Inl TypeError"
  by (simp add: validateStkPushRequest_def unconvertible_phone_body_def coercion_defs)

lemma base64_key_secret: "base64 ''key:secret'' = ''a2V5OnNlY3JldA==''"
  by (simp add: base64_def b64_char_def)

lemma format_sample_now: "format_YYYYMMDDHHmmss sample_now = ''20240101120000''"
  by (simp add: format_YYYYMMDDHHmmss_def sample_now_def pad_def digits.simps digit_char_def)

lemma token_sample_gateway:
  "getAccessToken sample_env sample_gateway w =
     (Inr (JStr ''tok''),
      w\<lparr>net_log := net_log w @
         [HttpGet token_url [(''Authorization'', ''Basic a2V5OnNlY3JldA=='')]]\<rparr>)"
  using base64_key_secret
  by (simp add: getAccessToken_def sample_env_def sample_gateway_def unset_def env_text_def
      get_prop_def read_prop_def Let_def)

lemma token_failing_gateway:
  "getAccessToken sample_env failing_gateway w =
     (Inr (JStr ''tok''),
      w\<lparr>net_log := net_log w @
         [HttpGet token_url [(''Authorization'', ''Basic a2V5OnNlY3JldA=='')]]\<rparr>)"
  using base64_key_secret
  by (simp add: getAccessToken_def sample_env_def failing_gateway_def unset_def env_text_def
      get_prop_def read_prop_def Let_def)

lemma token_no_key:
  "getAccessToken no_key_env gw w =
     (Inl (Error ''Missing M-Pesa credentials in environment variables''), w)"
  by (simp add: getAccessToken_def no_key_env_def sample_env_def unset_def)

lemma sample_initiation:
  "stkpush_route sample_env sample_gateway sample_now sample_body init_world =
     (res_json 200
        (JObj [(''success'', JBool True),
               (''message'', JStr ''STK push sent successfully. Please check your phone.''),
               (''data'', JObj [(''MerchantRequestID'', JStr ''29115-1''),
                                (''CheckoutRequestID'', JStr ''ws_CO_1''),
                                (''ResponseCode'', JStr ''0'')])]),
      \<lparr>net_log =
         [HttpGet token_url [(''Authorization'', ''Basic a2V5OnNlY3JldA=='')],
          stkpush_request sample_env sample_now sample_body ''tok''],
       pendingTransactions = [], documents = []\<rparr>)"
  by (simp add: stkpush_route_def validate_sample_body attachAccessToken_def
      token_sample_gateway stkpush_handler_def stkpush_try_def stkpush_request_def
      init_world_def get_prop_def read_prop_def truthy_def sample_gateway_def Let_def)

lemma forEach_sample_items:
  "forEach sample_items t =
     Inr (t\<lparr>amount := jint 500, mpesaReceiptNumber := JStr ''ABC123'',
            transactionDate := jint 20240101120000, phoneNumber := jint 254712345678\<rparr>)"
  by (simp add: sample_items_def metadata_item_def and_then_def get_prop_def read_prop_def Let_def)

lemma success_callback_try:
  "stk_callback_try success_callback w =
     Inr (\<lparr>checkoutRequestID = JStr ''ws_CO_1'', merchantRequestID = JStr ''29115-1'',
           resultCode = jint 0,
           resultDesc = JStr ''The service request is processed successfully.'',
           mpesaReceiptNumber = JStr ''ABC123'', amount = jint 500,
           transactionDate = jint 20240101120000, phoneNumber = jint 254712345678,
           userId = JStr ''686c2e0f0027634a8e93''\<rparr>,
          Map_get (pendingTransactions w) (JStr ''ws_CO_1''), w)"
  by (simp add: stk_callback_try_def success_callback_def and_then_def get_prop_def
      read_prop_def truthy_def forEach_sample_items Let_def)

lemma cancelled_callback_try:
  "stk_callback_try cancelled_callback init_world =
     Inr (\<lparr>checkoutRequestID = JStr ''ws_CO_1'', merchantRequestID = JStr ''29115-1'',
           resultCode = jint 1032, resultDesc = JStr ''Request cancelled by user'',
           mpesaReceiptNumber = JNull, amount = jint 1, transactionDate = JNull,
           phoneNumber = JNull, userId = JStr ''686c2e0f0027634a8e93''\<rparr>,
          JUndefined, init_world)"
  by (simp add: stk_callback_try_def cancelled_callback_def and_then_def get_prop_def
      read_prop_def truthy_def Map_get_def init_world_def Let_def)

section \<open>The claims\<close>

subsection \<open>C1: the pending-transaction ledger\<close>

text \<open>
  C1 as stated: after a successful initiation whose gateway response carries the correlation
  id \<open>C\<close>, the \<^verbatim>\<open>pendingTransactions\<close> map has an entry for \<open>C\<close>. On the code it fails: the
  initiation below is answered 200, the gateway gave \<^verbatim>\<open>CheckoutRequestID = ws_CO_1\<close>, and the
  map has no entry for it afterwards.
\<close>

theorem C1_ledger_counterexample:
  "status (fst (stkpush_route sample_env sample_gateway sample_now sample_body init_world)) = 200 \<and>
   read_prop (read_prop (json_body
       (fst (stkpush_route sample_env sample_gateway sample_now sample_body init_world)))
     ''data'') ''CheckoutRequestID'' = JStr ''ws_CO_1'' \<and>
   \<not> Map_has (pendingTransactions
       (snd (stkpush_route sample_env sample_gateway sample_now sample_body init_world)))
     (JStr ''ws_CO_1'')"
  by (simp add: sample_initiation status_def json_body_def res_json_def read_prop_def Map_has_def)

text \<open>
  C1, amended: the ledger is never written. An initiation leaves the \<^verbatim>\<open>pendingTransactions\<close>
  map as it was, and so does a callback; after any sequence of initiations and callbacks,
  starting from the empty map that the server creates, the map is empty, so it holds no
  entry for any correlation id, neither after a successful initiation nor after a callback.
\<close>

theorem C1_ledger_never_written:
  "pendingTransactions (snd (stkpush_route e gw now body w)) = pendingTransactions w \<and>
   pendingTransactions (snd (stk_callback cb w)) = pendingTransactions w \<and>
   pendingTransactions (serve e gw rqs init_world) = [] \<and>
   \<not> Map_has (pendingTransactions (serve e gw rqs init_world)) c"
proof -
  have "pendingTransactions (snd (stkpush_route e gw now body w)) = pendingTransactions w"
    using stkpush_route_rest [of e gw now body w] by (cases "stkpush_route e gw now body w") simp
  moreover have "pendingTransactions (serve e gw rqs init_world) = []"
    by (simp add: serve_rest init_world_def)
  moreover have "\<not> Map_has [] c"
    by (cases c) (simp_all add: Map_has_def)
  ultimately show ?thesis
    by (simp add: stk_callback_world)
qed

text \<open>The amended C1 on an initiation followed by the callback for its correlation id.\<close>

theorem C1_ledger_never_written_witness:
  "pendingTransactions (snd (stkpush_route sample_env sample_gateway sample_now sample_body
       init_world)) = pendingTransactions init_world \<and>
   pendingTransactions (snd (stk_callback success_callback init_world)) =
     pendingTransactions init_world \<and>
   pendingTransactions (serve sample_env sample_gateway
       [StkPush sample_now sample_body, StkCallback success_callback] init_world) = [] \<and>
   \<not> Map_has (pendingTransactions (serve sample_env sample_gateway
       [StkPush sample_now sample_body, StkCallback success_callback] init_world))
     (JStr ''ws_CO_1'')"
  by (rule C1_ledger_never_written)

subsection \<open>C2: the access token\<close>

text \<open>
  C2 as stated: while a token fetched before is still valid, \<^verbatim>\<open>getAccessToken\<close> makes no
  network call. On the code it fails: the first call below succeeds with one request, and the
  call right after it sends a second request.
\<close>

theorem C2_no_cache_counterexample:
  "fst (getAccessToken sample_env sample_gateway init_world) = Inr (JStr ''tok'') \<and>
   length (net_log (snd (getAccessToken sample_env sample_gateway init_world))) = 1 \<and>
   length (net_log (snd (getAccessToken sample_env sample_gateway
     (snd (getAccessToken sample_env sample_gateway init_world))))) = 2"
  by (simp add: token_sample_gateway init_world_def)

text \<open>
  C2, amended: \<^verbatim>\<open>getAccessToken\<close> holds no token between calls. Every call made with both
  credentials set sends exactly one request to the token endpoint, with Basic authentication
  built from \<^verbatim>\<open>base64(consumerKey:consumerSecret)\<close>, whatever was fetched before; with a
  credential unset or empty it sends nothing and fails.
\<close>

theorem C2_token_request_every_call:
  assumes "getAccessToken e gw w = (r, w1)"
  shows "if unset (CONSUMER_KEY e) \<or> unset (CONSUMER_SECRET e)
         then r = Inl (Error ''Missing M-Pesa credentials in environment variables'') \<and> w1 = w
         else net_log w1 = net_log w @
                [HttpGet token_url
                   [(''Authorization'',
                     ''Basic '' @ base64 (env_text (CONSUMER_KEY e) @ '':'' @
                                          env_text (CONSUMER_SECRET e)))]]"
  using assms
  by (auto simp: getAccessToken_def Let_def split: if_splits net_outcome.splits sum.splits)

text \<open>The amended C2 on the second of two calls in a row.\<close>

theorem C2_token_request_every_call_witness:
  "net_log (snd (getAccessToken sample_env sample_gateway
      (snd (getAccessToken sample_env sample_gateway init_world)))) =
   net_log (snd (getAccessToken sample_env sample_gateway init_world)) @
     [HttpGet token_url [(''Authorization'', ''Basic '' @ base64 ''key:secret'')]]"
  using C2_token_request_every_call
    [of sample_env sample_gateway "snd (getAccessToken sample_env sample_gateway init_world)"
        "fst (getAccessToken sample_env sample_gateway
           (snd (getAccessToken sample_env sample_gateway init_world)))"
        "snd (getAccessToken sample_env sample_gateway
           (snd (getAccessToken sample_env sample_gateway init_world)))"]
  by (simp add: sample_env_def unset_def env_text_def)

subsection \<open>C3: a callback without metadata\<close>

text \<open>
  C3 says that a callback with no metadata list gives a record with \<^verbatim>\<open>amount = null\<close>. The
  code starts \<^verbatim>\<open>baseTransaction\<close> with \<^verbatim>\<open>amount: 1\<close> (line 216), next to three fields that do
  start as \<^verbatim>\<open>null\<close>. What the code does for every callback that it reads and that has no
  (truthy) \<^verbatim>\<open>CallbackMetadata\<close>: the amount is \<open>1\<close>, not \<^verbatim>\<open>null\<close>; the receipt number, the
  transaction date and the phone number are \<^verbatim>\<open>null\<close>; the result description is the
  callback's \<^verbatim>\<open>ResultDesc\<close>.
\<close>

theorem C3_no_metadata_amount_is_one:
  assumes "stk_callback_try body w = Inr (t, stored, w1)"
    and "\<not> truthy (read_prop (read_prop (read_prop body ''Body'') ''stkCallback'')
           ''CallbackMetadata'')"
  shows "amount t = jint 1 \<and> amount t \<noteq> JNull \<and> mpesaReceiptNumber t = JNull \<and>
         transactionDate t = JNull \<and> phoneNumber t = JNull \<and>
         resultDesc t =
           read_prop (read_prop (read_prop body ''Body'') ''stkCallback'') ''ResultDesc''"
  using stk_callback_try_no_metadata [OF assms] by simp

text \<open>The callback of result code 1032, cancelled by the user: its record has amount \<open>1\<close>.\<close>

theorem C3_no_metadata_amount_is_one_witness:
  "amount (fst (projr (stk_callback_try cancelled_callback init_world))) = jint 1 \<and>
   amount (fst (projr (stk_callback_try cancelled_callback init_world))) \<noteq> JNull \<and>
   mpesaReceiptNumber (fst (projr (stk_callback_try cancelled_callback init_world))) = JNull \<and>
   resultDesc (fst (projr (stk_callback_try cancelled_callback init_world))) =
     JStr ''Request cancelled by user''"
proof -
  have no_metadata:
    "\<not> truthy (read_prop (read_prop (read_prop cancelled_callback ''Body'') ''stkCallback'')
         ''CallbackMetadata'')"
    by (simp add: cancelled_callback_def read_prop_def truthy_def)
  have desc:
    "read_prop (read_prop (read_prop cancelled_callback ''Body'') ''stkCallback'') ''ResultDesc'' =
       JStr ''Request cancelled by user''"
    by (simp add: cancelled_callback_def read_prop_def)
  show ?thesis
    using C3_no_metadata_amount_is_one [OF cancelled_callback_try no_metadata] desc
    by (simp add: cancelled_callback_try)
qed

subsection \<open>C4: persistence of the reconciled record\<close>

text \<open>
  C4 as stated: every callback that is processed writes a record to the database. On the code
  it fails: the callback of the successful payment is acknowledged with 200 and no document
  exists afterwards.
\<close>

theorem C4_no_document_counterexample:
  "fst (stk_callback success_callback init_world) = res_sendStatus 200 \<and>
   documents (snd (stk_callback success_callback init_world)) = []"
  by (simp add: stk_callback_def success_callback_try init_world_def)

text \<open>
  C4, amended: the callback handler writes no record. Every callback, readable or not, leaves
  the documents and the ledger as they were. With the ledger empty, as it always is, two
  callbacks in a row (with the same correlation id or not) both find no ledger entry, and
  neither produces a document.
\<close>

theorem C4_callback_writes_nothing:
  assumes "pendingTransactions w = []"
  shows "snd (stk_callback b1 w) = w \<and>
         snd (stk_callback b2 (snd (stk_callback b1 w))) = w \<and>
         documents (snd (stk_callback b2 (snd (stk_callback b1 w)))) = documents w \<and>
         (\<forall>t stored w1. stk_callback_try b1 w = Inr (t, stored, w1) \<longrightarrow> stored = JUndefined) \<and>
         (\<forall>t stored w2. stk_callback_try b2 (snd (stk_callback b1 w)) = Inr (t, stored, w2) \<longrightarrow>
            stored = JUndefined)"
  using assms
  by (auto simp: stk_callback_world Map_get_empty dest!: stk_callback_try_stored)

text \<open>The amended C4 on the same callback delivered twice.\<close>

theorem C4_callback_writes_nothing_witness:
  "snd (stk_callback success_callback init_world) = init_world \<and>
   snd (stk_callback success_callback (snd (stk_callback success_callback init_world))) =
     init_world \<and>
   documents (snd (stk_callback success_callback
     (snd (stk_callback success_callback init_world)))) = [] \<and>
   fst (snd (projr (stk_callback_try success_callback init_world))) = JUndefined \<and>
   fst (snd (projr (stk_callback_try success_callback
     (snd (stk_callback success_callback init_world))))) = JUndefined"
  using C4_callback_writes_nothing [of init_world success_callback success_callback]
  by (simp add: init_world_def success_callback_try stk_callback_world Map_get_empty)

subsection \<open>C5: the acknowledgment of a callback\<close>

text \<open>
  C5 as stated: every request to the callback endpoint is answered 200, a body with missing
  fields included. On the code it fails: the empty object has no \<^verbatim>\<open>Body\<close>, reading
  \<^verbatim>\<open>req.body.Body.stkCallback\<close> throws, and the \<^verbatim>\<open>catch\<close> block answers 500.
\<close>

theorem C5_malformed_callback_counterexample:
  "status (fst (stk_callback (JObj []) init_world)) = 500"
  by (simp add: stk_callback_def stk_callback_try_def and_then_def get_prop_def read_prop_def
      res_sendStatus_def status_def)

text \<open>
  C5, amended: the callback endpoint answers 200 exactly when the body can be read, that is
  when \<^verbatim>\<open>Body\<close> and \<^verbatim>\<open>Body.stkCallback\<close> are there and \<^verbatim>\<open>CallbackMetadata\<close>, if truthy, has an
  array \<^verbatim>\<open>Item\<close> without \<^verbatim>\<open>null\<close> entries; every other request is answered 500.
\<close>

theorem C5_callback_acknowledgment:
  "fst (stk_callback body w) =
     (if callback_readable body then res_sendStatus 200 else res_sendStatus 500)"
proof (cases "stk_callback_try body w")
  case (Inl err)
  then have "\<not> callback_readable body"
    using stk_callback_try_readable [of body w] by simp
  with Inl show ?thesis
    by (simp add: stk_callback_def)
next
  case (Inr res)
  then have "callback_readable body"
    using stk_callback_try_readable [of body w] by blast
  with Inr show ?thesis
    by (cases res) (simp add: stk_callback_def)
qed

text \<open>The amended C5 on a readable callback and on the empty object.\<close>

theorem C5_callback_acknowledgment_witness:
  "fst (stk_callback success_callback init_world) = res_sendStatus 200 \<and>
   fst (stk_callback (JObj []) init_world) = res_sendStatus 500"
  using C5_callback_acknowledgment [of success_callback init_world]
    C5_callback_acknowledgment [of "JObj []" init_world]
  by (simp add: callback_readable_def success_callback_def sample_items_def read_prop_def
      non_null_def truthy_def Let_def)

subsection \<open>C6: validation before any network call\<close>

text \<open>
  C6 says that a request whose phone number does not match \<^verbatim>\<open>^254\d{9}$\<close>, or whose amount is
  not a positive number, is answered 400 and causes no network call. What the code does for
  every such request: no network call is made and the state is unchanged; the answer is the
  400 of the validator, with a body \<^verbatim>\<open>{ error }\<close>, unless a coercion inside the validator
  throws, in which case the error-handling middleware answers 500.
\<close>

theorem C6_rejected_request_no_network:
  assumes "regex_test (read_prop body ''phoneNumber'') \<noteq> Inr True \<or>
           isNaN (read_prop body ''amount'') \<noteq> Inr False \<or>
           le_zero (read_prop body ''amount'') \<noteq> Inr False"
  shows "snd (stkpush_route e gw now body w) = w \<and>
         (case validateStkPushRequest body of
            Inl err \<Rightarrow>
              fst (stkpush_route e gw now body w) = error_middleware \<and>
              status (fst (stkpush_route e gw now body w)) = 500
          | Inr r \<Rightarrow>
              status (fst (stkpush_route e gw now body w)) = 400 \<and>
              (\<exists>msg. fst (stkpush_route e gw now body w) =
                 res_json 400 (JObj [(''error'', JStr msg)])))"
proof (cases "validateStkPushRequest body")
  case (Inl err)
  then show ?thesis
    by (simp add: stkpush_route_def error_middleware_def status_res_json)
next
  case (Inr r)
  show ?thesis
  proof (cases r)
    case Next
    with Inr assms show ?thesis
      by (simp add: validate_Next)
  next
    case (Respond resp)
    with Inr obtain msg where "resp = res_json 400 (JObj [(''error'', JStr msg)])"
      using validate_Respond [of body resp] by blast
    with Inr Respond show ?thesis
      by (auto simp: stkpush_route_def status_res_json)
  qed
qed

text \<open>
  A phone number that is an object with a member of its own named \<^verbatim>\<open>toString\<close> cannot be
  converted to a string: the request is answered 500, not 400. A phone number in the local
  form \<^verbatim>\<open>0712345678\<close> is answered 400. Neither request reaches the network.
\<close>

theorem C6_rejected_request_no_network_witness:
  "fst (stkpush_route sample_env sample_gateway sample_now unconvertible_phone_body init_world) =
     res_json 500 (JObj [(''error'', JStr ''Internal server error'')]) \<and>
   status (fst (stkpush_route sample_env sample_gateway sample_now unconvertible_phone_body
     init_world)) = 500 \<and>
   snd (stkpush_route sample_env sample_gateway sample_now unconvertible_phone_body init_world) =
     init_world \<and>
   status (fst (stkpush_route sample_env sample_gateway sample_now local_phone_body
     init_world)) = 400 \<and>
   snd (stkpush_route sample_env sample_gateway sample_now local_phone_body init_world) =
     init_world"
proof -
  have bad: "regex_test (read_prop unconvertible_phone_body ''phoneNumber'') = Inl TypeError"
    by (simp add: unconvertible_phone_body_def read_prop_def regex_test_def)
  have local: "regex_test (read_prop local_phone_body ''phoneNumber'') = Inr False"
    by (simp add: local_phone_body_def read_prop_def regex_test_def matches_254_d9_def)
  show ?thesis
    using C6_rejected_request_no_network
        [of unconvertible_phone_body sample_env sample_gateway sample_now init_world]
      C6_rejected_request_no_network
        [of local_phone_body sample_env sample_gateway sample_now init_world]
    by (simp add: bad local validate_unconvertible_phone_body validate_local_phone_body
        error_middleware_def status_res_json)
qed

subsection \<open>C7: the metadata of a successful payment\<close>

text \<open>
  C7: for every callback whose \<^verbatim>\<open>ResultCode\<close> is \<open>0\<close> and whose metadata list is
  \<^verbatim>\<open>Amount = 500\<close>, \<^verbatim>\<open>MpesaReceiptNumber = ABC123\<close>, \<^verbatim>\<open>TransactionDate = 20240101120000\<close>,
  \<^verbatim>\<open>PhoneNumber = 254712345678\<close>, the handler reads the callback to the end and the record it
  builds has these four values as its amount, receipt number, transaction date and phone
  number.
\<close>

theorem C7_success_metadata:
  assumes "get_prop body ''Body'' = Inr B"
    and "get_prop B ''stkCallback'' = Inr callbackData"
    and "read_prop callbackData ''ResultCode'' = jint 0"
    and "read_prop (read_prop callbackData ''CallbackMetadata'') ''Item'' = JArr sample_items"
  shows "\<exists>t stored. stk_callback_try body w = Inr (t, stored, w) \<and>
           resultCode t = jint 0 \<and> amount t = jint 500 \<and>
           mpesaReceiptNumber t = JStr ''ABC123'' \<and>
           transactionDate t = jint 20240101120000 \<and>
           phoneNumber t = jint 254712345678"
proof -
  have cm: "truthy (read_prop callbackData ''CallbackMetadata'')"
    using assms(4)
    by (cases "read_prop callbackData ''CallbackMetadata''") (simp_all add: read_prop_def truthy_def)
  then have "non_null (read_prop callbackData ''CallbackMetadata'')"
    by (rule truthy_non_null)
  moreover have "non_null callbackData"
    using assms(4) by (cases callbackData) (simp_all add: read_prop_def non_null_def)
  ultimately show ?thesis
    using assms cm
    by (simp add: stk_callback_try_def and_then_def get_prop_Inr [THEN iffD2]
        forEach_sample_items Let_def)
qed

text \<open>C7 on the callback of the successful payment.\<close>

theorem C7_success_metadata_witness:
  "\<exists>t stored. stk_callback_try success_callback init_world = Inr (t, stored, init_world) \<and>
     resultCode t = jint 0 \<and> amount t = jint 500 \<and>
     mpesaReceiptNumber t = JStr ''ABC123'' \<and>
     transactionDate t = jint 20240101120000 \<and>
     phoneNumber t = jint 254712345678"
  using C7_success_metadata [of success_callback
      "read_prop success_callback ''Body''"
      "read_prop (read_prop success_callback ''Body'') ''stkCallback''" init_world]
  by (simp add: success_callback_def get_prop_def read_prop_def)

subsection \<open>C8: the password of the gateway request\<close>

text \<open>
  C8: for every request that passes validation and obtains a token, the handler sends one
  POST to the gateway, right after the token request, whose \<^verbatim>\<open>Timestamp\<close> is the formatted
  clock reading and whose \<^verbatim>\<open>Password\<close> is the Base64 text of
  \<^verbatim>\<open>businessShortCode + passkey + timestamp\<close> for that same timestamp: the concatenation
  \<open>shortCode @ passKey @ timestamp\<close> when both variables are set. For a clock reading within
  range the timestamp is fourteen digits.
\<close>

theorem C8_password_round_trip:
  assumes "validateStkPushRequest body = Inr Next"
    and "getAccessToken e gw w = (Inr accessToken, w1)"
    and "ToString accessToken = Inr bearer"
  shows "\<exists>data headers.
           net_log (snd (stkpush_route e gw now body w)) =
             net_log w1 @ [HttpPost stkPushUrl data headers] \<and>
           read_prop data ''Timestamp'' = JStr (format_YYYYMMDDHHmmss now) \<and>
           read_prop data ''Password'' =
             JStr (base64 (plus3 (BUSINESSSHORTCODE e) (PASSKEY e) (format_YYYYMMDDHHmmss now))) \<and>
           (\<forall>shortCode passKey.
              BUSINESSSHORTCODE e = Some shortCode \<and> PASSKEY e = Some passKey \<longrightarrow>
              read_prop data ''Password'' =
                JStr (base64 (shortCode @ passKey @ format_YYYYMMDDHHmmss now))) \<and>
           (YYYY now < 10000 \<and> MM now < 100 \<and> DD now < 100 \<and> HH now < 100 \<and> mm now < 100 \<and>
            ss now < 100 \<longrightarrow>
              length (format_YYYYMMDDHHmmss now) = 14 \<and>
              list_all is_digit (format_YYYYMMDDHHmmss now))"
  using stkpush_route_valid [OF assms(1,2), of now]
    stkpush_try_log [OF assms(3), of e gw now body w1]
    requestData_members [of e "format_YYYYMMDDHHmmss now" body]
    timestamp_shape [of now]
  by (auto simp: stkpush_handler_log stkpush_request_def plus3_def)

text \<open>C8 on the initiation of phone \<^verbatim>\<open>254712345678\<close> and amount \<^verbatim>\<open>100\<close>.\<close>

theorem C8_password_round_trip_witness:
  "\<exists>data headers.
     net_log (snd (stkpush_route sample_env sample_gateway sample_now sample_body init_world)) =
       [HttpGet token_url [(''Authorization'', ''Basic a2V5OnNlY3JldA=='')],
        HttpPost stkPushUrl data headers] \<and>
     read_prop data ''Timestamp'' = JStr ''20240101120000'' \<and>
     read_prop data ''Password'' = JStr (base64 (''174379'' @ ''pk'' @ ''20240101120000''))"
  using C8_password_round_trip [OF validate_sample_body token_sample_gateway [of init_world],
      where bearer = "''tok''" and now = sample_now]
  by (simp add: format_sample_now sample_env_def init_world_def) blast

subsection \<open>C9: the responses of the initiation endpoint\<close>

text \<open>
  C9 as stated: an authentication failure is answered 500 with a body
  \<^verbatim>\<open>{ success: false, error }\<close>. On the code it fails: without a consumer key the answer is
  the one of \<^verbatim>\<open>attachAccessToken\<close>, whose body has an \<^verbatim>\<open>error\<close> member and no \<^verbatim>\<open>success\<close> member.
\<close>

theorem C9_auth_failure_body_counterexample:
  "fst (stkpush_route no_key_env sample_gateway sample_now sample_body init_world) =
     res_json 500 (JObj [(''error'', JStr ''Failed to authenticate with M-Pesa API'')]) \<and>
   read_prop (json_body
     (fst (stkpush_route no_key_env sample_gateway sample_now sample_body init_world)))
     ''success'' = JUndefined"
  by (simp add: stkpush_route_def validate_sample_body attachAccessToken_def token_no_key
      json_body_def res_json_def read_prop_def)

text \<open>
  C9, amended: the endpoint answers 400 with \<^verbatim>\<open>{ error }\<close> when the validator rejects the
  request; 500 with \<^verbatim>\<open>{ error }\<close>, and no \<^verbatim>\<open>success\<close> member, when \<^verbatim>\<open>getAccessToken\<close> throws
  (a credential unset or empty, the token request rejected, or an answer with no data, see
  \<open>getAccessToken_throws\<close>); 500 with \<^verbatim>\<open>{ success: false, error }\<close> when \<^verbatim>\<open>getAccessToken\<close>
  returns and the request to the gateway fails; and 200 with
  \<^verbatim>\<open>{ success: true, message, data }\<close> when \<^verbatim>\<open>getAccessToken\<close> returns and the gateway answers
  with data that is not \<^verbatim>\<open>null\<close>. A token answer without an \<^verbatim>\<open>access_token\<close> member does not
  throw: \<^verbatim>\<open>getAccessToken\<close> returns \<^verbatim>\<open>undefined\<close> and the push is sent, so the answer is the
  one of the push.
\<close>

theorem C9_initiate_responses:
  "(validateStkPushRequest body = Inr (Respond r) \<longrightarrow>
      fst (stkpush_route e gw now body w) = r \<and> status r = 400 \<and>
      (\<exists>msg. json_body r = JObj [(''error'', JStr msg)])) \<and>
   (validateStkPushRequest body = Inr Next \<and> getAccessToken e gw w = (Inl err, w1) \<longrightarrow>
      fst (stkpush_route e gw now body w) =
        res_json 500 (JObj [(''error'', JStr ''Failed to authenticate with M-Pesa API'')])) \<and>
   (validateStkPushRequest body = Inr Next \<and> getAccessToken e gw w = (Inr accessToken, w2) \<and>
    ToString accessToken = Inr bearer \<and>
    gw (length (net_log w2)) (stkpush_request e now body bearer) = Rejected \<longrightarrow>
      fst (stkpush_route e gw now body w) =
        res_json 500 (JObj [(''success'', JBool False),
                            (''error'', JStr ''Failed to process STK push request'')])) \<and>
   (validateStkPushRequest body = Inr Next \<and> getAccessToken e gw w = (Inr accessToken, w2) \<and>
    ToString accessToken = Inr bearer \<and>
    gw (length (net_log w2)) (stkpush_request e now body bearer) = Resolved data \<and>
    non_null data \<longrightarrow>
      fst (stkpush_route e gw now body w) =
        res_json 200
          (JObj [(''success'', JBool True),
                 (''message'', JStr ''STK push sent successfully. Please check your phone.''),
                 (''data'', data)]))"
proof (intro conjI impI)
  assume v: "validateStkPushRequest body = Inr (Respond r)"
  then obtain msg where r: "r = res_json 400 (JObj [(''error'', JStr msg)])"
    using validate_Respond by blast
  show "fst (stkpush_route e gw now body w) = r"
    using v by (simp add: stkpush_route_def)
  show "status r = 400"
    using r by (simp add: status_res_json)
  show "\<exists>msg. json_body r = JObj [(''error'', JStr msg)]"
    using r by (simp add: json_body_def res_json_def)
next
  assume "validateStkPushRequest body = Inr Next \<and> getAccessToken e gw w = (Inl err, w1)"
  then show "fst (stkpush_route e gw now body w) =
      res_json 500 (JObj [(''error'', JStr ''Failed to authenticate with M-Pesa API'')])"
    by (simp add: stkpush_route_def attachAccessToken_def)
next
  assume a: "validateStkPushRequest body = Inr Next \<and>
      getAccessToken e gw w = (Inr accessToken, w2) \<and> ToString accessToken = Inr bearer \<and>
      gw (length (net_log w2)) (stkpush_request e now body bearer) = Rejected"
  then have "stkpush_route e gw now body w = stkpush_handler e gw now body accessToken w2"
    by (simp add: stkpush_route_valid)
  with a show "fst (stkpush_route e gw now body w) =
      res_json 500 (JObj [(''success'', JBool False),
                          (''error'', JStr ''Failed to process STK push request'')])"
    by (simp add: stkpush_handler_fst stkpush_try_Rejected)
next
  assume a: "validateStkPushRequest body = Inr Next \<and>
      getAccessToken e gw w = (Inr accessToken, w2) \<and> ToString accessToken = Inr bearer \<and>
      gw (length (net_log w2)) (stkpush_request e now body bearer) = Resolved data \<and>
      non_null data"
  then have "stkpush_route e gw now body w = stkpush_handler e gw now body accessToken w2"
    by (simp add: stkpush_route_valid)
  with a show "fst (stkpush_route e gw now body w) =
      res_json 200
        (JObj [(''success'', JBool True),
               (''message'', JStr ''STK push sent successfully. Please check your phone.''),
               (''data'', data)])"
    by (simp add: stkpush_handler_fst stkpush_try_Resolved)
qed

text \<open>
  The amended C9 on four requests: a local phone number, an environment without consumer key,
  a gateway that rejects the push, and a gateway that accepts it.
\<close>

theorem C9_initiate_responses_witness:
  "fst (stkpush_route sample_env sample_gateway sample_now local_phone_body init_world) =
     res_json 400 (JObj [(''error'', JStr ''Invalid phone number format. Use 254XXXXXXXXX'')]) \<and>
   fst (stkpush_route no_key_env sample_gateway sample_now sample_body init_world) =
     res_json 500 (JObj [(''error'', JStr ''Failed to authenticate with M-Pesa API'')]) \<and>
   fst (stkpush_route sample_env failing_gateway sample_now sample_body init_world) =
     res_json 500 (JObj [(''success'', JBool False),
                         (''error'', JStr ''Failed to process STK push request'')]) \<and>
   fst (stkpush_route sample_env sample_gateway sample_now sample_body init_world) =
     res_json 200
       (JObj [(''success'', JBool True),
              (''message'', JStr ''STK push sent successfully. Please check your phone.''),
              (''data'', JObj [(''MerchantRequestID'', JStr ''29115-1''),
                               (''CheckoutRequestID'', JStr ''ws_CO_1''),
                               (''ResponseCode'', JStr ''0'')])])"
proof -
  let ?w1 = "init_world\<lparr>net_log := net_log init_world @
      [HttpGet token_url [(''Authorization'', ''Basic a2V5OnNlY3JldA=='')]]\<rparr>"
  have rejected:
    "failing_gateway n (stkpush_request sample_env sample_now sample_body ''tok'') = Rejected"
    for n
    by (simp add: failing_gateway_def stkpush_request_def)
  have resolved:
    "sample_gateway n (stkpush_request sample_env sample_now sample_body ''tok'') =
     Resolved (JObj [(''MerchantRequestID'', JStr ''29115-1''),
                     (''CheckoutRequestID'', JStr ''ws_CO_1''),
                     (''ResponseCode'', JStr ''0'')])"
    for n
    by (simp add: sample_gateway_def stkpush_request_def)
  show ?thesis
    using
      C9_initiate_responses [where body = local_phone_body and e = sample_env
        and gw = sample_gateway and now = sample_now and w = init_world
        and r = "res_json 400
          (JObj [(''error'', JStr ''Invalid phone number format. Use 254XXXXXXXXX'')])"]
      C9_initiate_responses [where body = sample_body and e = no_key_env
        and gw = sample_gateway and now = sample_now and w = init_world
        and err = "Error ''Missing M-Pesa credentials in environment variables''"
        and ?w1.0 = init_world]
      C9_initiate_responses [where body = sample_body and e = sample_env
        and gw = failing_gateway and now = sample_now and w = init_world
        and accessToken = "JStr ''tok''" and bearer = "''tok''" and ?w2.0 = ?w1]
      C9_initiate_responses [where body = sample_body and e = sample_env
        and gw = sample_gateway and now = sample_now and w = init_world
        and accessToken = "JStr ''tok''" and bearer = "''tok''" and ?w2.0 = ?w1
        and data = "JObj [(''MerchantRequestID'', JStr ''29115-1''),
                     (''CheckoutRequestID'', JStr ''ws_CO_1''),
                     (''ResponseCode'', JStr ''0'')]"]
    by (simp add: validate_local_phone_body validate_sample_body token_no_key
        token_sample_gateway token_failing_gateway rejected resolved non_null_def)
qed

subsection \<open>C10: the user id of the record\<close>

text \<open>
  C10: for every callback that the handler reads to the end, whatever its content and whatever
  the ledger holds, the \<^verbatim>\<open>userId\<close> of the record is the string \<^verbatim>\<open>686c2e0f0027634a8e93\<close>.
\<close>

theorem C10_userId_constant:
  assumes "stk_callback_try body w = Inr (t, stored, w1)"
  shows "userId t = JStr ''686c2e0f0027634a8e93''"
  using assms
  by (auto simp: stk_callback_try_def and_then_Inr Let_def
      split: if_splits dest!: Item_case_Inr forEach_userId)

text \<open>C10 on the cancelled callback.\<close>

theorem C10_userId_constant_witness:
  "userId (fst (projr (stk_callback_try cancelled_callback init_world))) =
     JStr ''686c2e0f0027634a8e93''"
  using C10_userId_constant [OF cancelled_callback_try] by (simp add: cancelled_callback_try)

end
